theory Spec2Isabelle
  imports Main "HOL-Library.Word" "HOL-Library.Sublist"
begin

unbundle bit_operations_syntax

section \<open>The kpub topic channel\<close>

text \<open>
  A shallow embedding of the second revision of the kpub character device
  (the one with \<open>msg_size\<close>, \<open>msg_count\<close>, \<open>rp\<close>, \<open>len\<close> and \<open>rcount\<close>):
  the sysfs stores \<open>msg_size_store\<close> and \<open>msg_count_store\<close> and the file
  operations \<open>kpub_open\<close>, \<open>kpub_release\<close>, \<open>kpub_read\<close>, \<open>kpub_write\<close> and
  \<open>kpub_poll\<close>.

  Every operation runs with the topic mutex held from its lock to its unlock, so
  an operation is one atomic step on the topic. A call that would go to sleep
  on a wait queue is the outcome \<open>SLEEPS\<close> with the topic unchanged: the sleeper
  re-checks its condition when woken, which is a fresh call in this model.
\<close>

subsection \<open>Machine types\<close>

type_synonym u8 = "8 word"
type_synonym u32 = "32 word"
type_synonym size_t = "64 word"
type_synonym loff_t = "64 word"

text \<open>
  \<open>loff_t\<close> is a signed 64-bit integer: it is compared with \<open>word_sless\<close> and
  \<open>word_sle\<close> where the C comparison is signed. \<open>size_t\<close> is unsigned.
\<close>

subsection \<open>Results\<close>

text \<open>
  The errno values of the driver, and two outcomes that are not return values:
  \<open>SLEEPS\<close> (the caller is suspended on \<open>inq\<close> or \<open>outq\<close>) and \<open>CRASH\<close>
  (undefined behaviour in C: division by zero, an access outside the buffer).
  \<open>EBUSY\<close> is never produced by the driver.
\<close>

datatype error =
  EINVAL | ERESTARTSYS | ENOMEM | EACCES | EAGAIN | EFAULT | EBUSY | SLEEPS | CRASH

subsection \<open>The environment of one call\<close>

text \<open>
  What a call cannot decide by itself: whether a signal interrupts
  \<open>mutex_lock_interruptible\<close> or \<open>wait_event_interruptible\<close>, whether the user
  pointer faults in \<open>copy_to_user\<close> / \<open>copy_from_user\<close>, whether \<open>kzalloc\<close>
  fails.
\<close>

record env =
  sig_lock :: bool
  sig_wait :: bool
  bad_user :: bool
  no_mem :: bool

definition quiet :: env where
  "quiet = \<lparr>sig_lock = False, sig_wait = False, bad_user = False, no_mem = False\<rparr>"

subsection \<open>struct topic and struct file\<close>

text \<open>
  The fields of \<open>struct topic\<close> that the operations read or write. The name,
  the device, the cdev, the list entry, the mutex and the wait queues carry no
  data of the channel. \<open>buf\<close> is \<open>None\<close> for the NULL pointer.
\<close>

record topic =
  msg_size :: u32
  msg_count :: u32
  nreaders :: u32
  nwriters :: u32
  wp :: u32
  rp :: u32
  len :: u32
  rcount :: u32
  buf :: "u8 list option"

text \<open>
  \<open>kfile\<close> holds, of \<open>struct file\<close>: the bits \<open>FMODE_READ\<close> and \<open>FMODE_WRITE\<close> of \<open>f_mode\<close>,
  the bit \<open>O_NONBLOCK\<close> of \<open>f_flags\<close>, and \<open>f_pos\<close>, which the kernel passes
  to read and write as \<open>*off\<close> and stores back afterwards.
\<close>

record kfile =
  fmode_read :: bool
  fmode_write :: bool
  o_nonblock :: bool
  f_pos :: loff_t

text \<open>\<open>create_topic_store\<close> allocates the topic with \<open>kzalloc\<close>: every field is zero.\<close>

definition new_topic :: topic where
  "new_topic = \<lparr>msg_size = 0, msg_count = 0, nreaders = 0, nwriters = 0,
     wp = 0, rp = 0, len = 0, rcount = 0, buf = None\<rparr>"

text \<open>
  \<open>size_t size = topic->msg_size * topic->msg_count\<close>: the product is computed
  in 32 bits and then widened.
\<close>

definition topic_size :: "topic \<Rightarrow> size_t" where
  "topic_size t = ucast (msg_size t * msg_count t)"

subsection \<open>Configuration: the sysfs stores\<close>

definition MAX_MSG_SIZE :: "size_t \<Rightarrow> size_t" where
  "MAX_MSG_SIZE PAGE_SIZE = PAGE_SIZE"

definition MAX_MSG_COUNT :: u32 where
  "MAX_MSG_COUNT = 64"

text \<open>
  \<open>msg_size_store\<close>. \<open>PAGE_SIZE\<close> comes from the kernel headers and is a
  parameter. \<open>v\<close> is the 32-bit value that \<open>*(uint32_t *)buf\<close> reads, \<open>n\<close> the
  length of the sysfs write. The new value is stored before it is checked, and
  reset to zero when it is too big.
\<close>

definition msg_size_store :: "size_t \<Rightarrow> env \<Rightarrow> topic \<Rightarrow> u32 \<Rightarrow> size_t \<Rightarrow> (error + size_t) \<times> topic" where
  "msg_size_store PAGE_SIZE e t v n =
     (if 4 < n then (Inl EINVAL, t)
      else if sig_lock e then (Inl ERESTARTSYS, t)
      else if nreaders t \<noteq> 0 \<or> nwriters t \<noteq> 0 then (Inl EINVAL, t)
      else let t1 = t\<lparr>msg_size := v\<rparr> in
        if MAX_MSG_SIZE PAGE_SIZE < ucast (msg_size t1)
        then (Inl EINVAL, t1\<lparr>msg_size := 0\<rparr>)
        else (Inr n, t1))"

definition msg_count_store :: "env \<Rightarrow> topic \<Rightarrow> u32 \<Rightarrow> size_t \<Rightarrow> (error + size_t) \<times> topic" where
  "msg_count_store e t v n =
     (if 4 < n then (Inl EINVAL, t)
      else if sig_lock e then (Inl ERESTARTSYS, t)
      else if nreaders t \<noteq> 0 \<or> nwriters t \<noteq> 0 then (Inl EINVAL, t)
      else let t1 = t\<lparr>msg_count := v\<rparr> in
        if MAX_MSG_COUNT < msg_count t1
        then (Inl EINVAL, t1\<lparr>msg_count := 0\<rparr>)
        else (Inr n, t1))"

subsection \<open>Kernel services\<close>

text \<open>\<open>kzalloc\<close>: NULL on failure, otherwise \<open>n\<close> zero bytes.\<close>

definition kzalloc :: "env \<Rightarrow> nat \<Rightarrow> u8 list option" where
  "kzalloc e n = (if no_mem e then None else Some (replicate n 0))"

text \<open>
  \<open>copy_to_user(buf, &topic->buf[off], n)\<close>: nothing is touched when \<open>n\<close> is
  zero; a bad user pointer gives \<open>EFAULT\<close>; reading outside the allocation
  (or through NULL) is undefined. \<open>off\<close> is the signed value of \<open>*off\<close>.
\<close>

definition copy_to_user :: "env \<Rightarrow> u8 list option \<Rightarrow> int \<Rightarrow> nat \<Rightarrow> error + u8 list" where
  "copy_to_user e kb off n =
     (if n = 0 then Inr []
      else if bad_user e then Inl EFAULT
      else case kb of
          None \<Rightarrow> Inl CRASH
        | Some b \<Rightarrow>
            if 0 \<le> off \<and> nat off + n \<le> length b
            then Inr (take n (drop (nat off) b))
            else Inl CRASH)"

text \<open>
  \<open>copy_from_user(&topic->buf[wp], buf, n)\<close>: \<open>ubuf\<close> holds the bytes that are
  readable at the user pointer; fewer than \<open>n\<close> readable bytes is a fault, and a
  faulting copy is taken to leave the kernel buffer as it was.
\<close>

definition copy_from_user :: "env \<Rightarrow> u8 list option \<Rightarrow> nat \<Rightarrow> u8 list \<Rightarrow> nat \<Rightarrow> error + u8 list option" where
  "copy_from_user e kb pos ubuf n =
     (if n = 0 then Inr kb
      else if bad_user e \<or> length ubuf < n then Inl EFAULT
      else case kb of
          None \<Rightarrow> Inl CRASH
        | Some b \<Rightarrow>
            if pos + n \<le> length b
            then Inr (Some (take pos b @ take n ubuf @ drop (pos + n) b))
            else Inl CRASH)"

subsection \<open>Open and release\<close>

text \<open>
  \<open>kpub_open\<close>. The last three assignments run for every successful open,
  reader or writer: \<open>file->f_pos = topic->wp; topic->rp = topic->wp;
  topic->len = 0\<close>.
\<close>

definition kpub_open :: "env \<Rightarrow> topic \<Rightarrow> kfile \<Rightarrow> (error + unit) \<times> topic \<times> kfile" where
  "kpub_open e t f =
     (if sig_lock e then (Inl ERESTARTSYS, t, f)
      else if msg_size t = 0 \<or> msg_count t = 0 then (Inl ENOMEM, t, f)
      else case (case buf t of
                   None \<Rightarrow> kzalloc e (unat (msg_size t * msg_count t))
                 | Some b \<Rightarrow> Some b) of
          None \<Rightarrow> (Inl ENOMEM, t, f)
        | Some b \<Rightarrow>
            let t1 = t\<lparr>buf := Some b\<rparr> in
            if fmode_read f \<and> \<not> fmode_write f then
              let t2 = t1\<lparr>nreaders := nreaders t1 + 1\<rparr> in
              (Inr (), t2\<lparr>rp := wp t2, len := 0\<rparr>, f\<lparr>f_pos := ucast (wp t2)\<rparr>)
            else if fmode_write f \<and> \<not> fmode_read f then
              let t2 = t1\<lparr>nwriters := nwriters t1 + 1\<rparr> in
              (Inr (), t2\<lparr>rp := wp t2, len := 0\<rparr>, f\<lparr>f_pos := ucast (wp t2)\<rparr>)
            else (Inl EACCES, t1, f))"

definition kpub_release :: "env \<Rightarrow> topic \<Rightarrow> kfile \<Rightarrow> (error + unit) \<times> topic" where
  "kpub_release e t f =
     (if sig_lock e then (Inl ERESTARTSYS, t)
      else if fmode_read f \<and> \<not> fmode_write f then (Inr (), t\<lparr>nreaders := nreaders t - 1\<rparr>)
      else if fmode_write f \<and> \<not> fmode_read f then (Inr (), t\<lparr>nwriters := nwriters t - 1\<rparr>)
      else (Inl EACCES, t))"

subsection \<open>Read\<close>

text \<open>
  \<open>kpub_read\<close> returns the result, the topic, the file (with the new
  \<open>f_pos\<close>) and the bytes copied to the user. \<open>n\<close> is the clamped \<open>len\<close>.
\<close>

definition kpub_read :: "env \<Rightarrow> topic \<Rightarrow> kfile \<Rightarrow> size_t \<Rightarrow> (error + size_t) \<times> topic \<times> kfile \<times> u8 list" where
  "kpub_read e t f len0 =
     (let size = topic_size t; off = f_pos f in
      if sig_lock e then (Inl ERESTARTSYS, t, f, [])
      else if off = ucast (wp t) then
        (if o_nonblock f then (Inl EAGAIN, t, f, [])
         else if sig_wait e then (Inl ERESTARTSYS, t, f, [])
         else (Inl SLEEPS, t, f, []))
      else
        let n = (if word_sless off (ucast (wp t))
                 then min len0 (ucast (wp t) - off)
                 else min len0 (size - off)) in
        case copy_to_user e (buf t) (sint off) (unat n) of
          Inl er \<Rightarrow> (Inl er, t, f, [])
        | Inr out \<Rightarrow>
            let off1 = off + n;
                off2 = (if off1 = size then 0 else off1);
                t1 = t\<lparr>rcount := rcount t - 1\<rparr>;
                t2 = (if rcount t1 = 0 then
                        let rp1 = (ucast ((ucast (rp t1) :: size_t) + n) :: u32);
                            rp2 = (if (ucast rp1 :: size_t) = size then 0 else rp1)
                        in t1\<lparr>rp := rp2, len := ucast ((ucast (len t1) :: size_t) - n)\<rparr>
                      else t1)
            in (Inr n, t2, f\<lparr>f_pos := off2\<rparr>, out))"

subsection \<open>Write\<close>

text \<open>
  \<open>kpub_write\<close>. The two length checks come before the lock. \<open>len % msg_size\<close>
  divides by zero when \<open>msg_size\<close> is zero. The clamp compares \<open>wp\<close> with
  \<open>*off\<close>, the position of the writer's own file, which \<open>kpub_write\<close> never
  changes.
\<close>

definition kpub_write :: "env \<Rightarrow> topic \<Rightarrow> kfile \<Rightarrow> u8 list \<Rightarrow> size_t \<Rightarrow> (error + size_t) \<times> topic \<times> kfile" where
  "kpub_write e t f ubuf len0 =
     (let size = topic_size t; off = f_pos f in
      if msg_size t = 0 then (Inl CRASH, t, f)
      else if len0 mod ucast (msg_size t) \<noteq> 0 then (Inl EINVAL, t, f)
      else if size < len0 then (Inl EINVAL, t, f)
      else if sig_lock e then (Inl ERESTARTSYS, t, f)
      else if (ucast (len t) :: size_t) = size then
        (if o_nonblock f then (Inl EAGAIN, t, f)
         else if sig_wait e then (Inl ERESTARTSYS, t, f)
         else (Inl SLEEPS, t, f))
      else
        let n = (if word_sle off (ucast (wp t))
                 then min len0 (size - ucast (wp t))
                 else min len0 (off - ucast (wp t))) in
        case copy_from_user e (buf t) (unat (wp t)) ubuf (unat n) of
          Inl er \<Rightarrow> (Inl er, t, f)
        | Inr kb \<Rightarrow>
            let wp1 = (ucast ((ucast (wp t) :: size_t) + n) :: u32);
                wp2 = (if (ucast wp1 :: size_t) = size then 0 else wp1);
                t1 = t\<lparr>buf := kb, wp := wp2,
                       len := ucast ((ucast (len t) :: size_t) + n)\<rparr>
            in (Inr n, t1\<lparr>rcount := nreaders t1\<rparr>, f))"

subsection \<open>Poll\<close>

text \<open>
  The four bits of the ready mask, with the values of the kernel's
  \<open>asm-generic/poll.h\<close>. \<open>kpub_poll\<close> sets the read bits when \<open>len > 0\<close>
  and the write bits when \<open>len == size\<close>; the two \<open>poll_wait\<close> calls only
  register the caller.
\<close>

definition POLLIN :: u32 where "POLLIN = 0x0001"
definition POLLOUT :: u32 where "POLLOUT = 0x0004"
definition POLLRDNORM :: u32 where "POLLRDNORM = 0x0040"
definition POLLWRNORM :: u32 where "POLLWRNORM = 0x0100"

definition kpub_poll :: "topic \<Rightarrow> kfile \<Rightarrow> u32" where
  "kpub_poll t f =
     (let size = topic_size t;
          m1 = (if 0 < len t then POLLIN OR POLLRDNORM else 0);
          m2 = (if (ucast (len t) :: size_t) = size then m1 OR (POLLOUT OR POLLWRNORM) else m1)
      in m2)"

section \<open>One reader and one writer on a topic\<close>

text \<open>
  A topic with one reader file and one writer file, and the bytes that the
  reads returned (\<open>got\<close>) and that the writes accepted (\<open>put\<close>), each in
  order. Every call runs in the \<open>quiet\<close> environment.
\<close>

record sys =
  top :: topic
  rd :: kfile
  wr :: kfile
  got :: "u8 list"
  put :: "u8 list"

datatype op = OpenR | OpenW | CloseR | CloseW | Read size_t | Write "u8 list"

definition step :: "sys \<Rightarrow> op \<Rightarrow> sys" where
  "step s x =
     (case x of
        OpenR \<Rightarrow> (case kpub_open quiet (top s) (rd s) of (r, t, f) \<Rightarrow> s\<lparr>top := t, rd := f\<rparr>)
      | OpenW \<Rightarrow> (case kpub_open quiet (top s) (wr s) of (r, t, f) \<Rightarrow> s\<lparr>top := t, wr := f\<rparr>)
      | CloseR \<Rightarrow> (case kpub_release quiet (top s) (rd s) of (r, t) \<Rightarrow> s\<lparr>top := t\<rparr>)
      | CloseW \<Rightarrow> (case kpub_release quiet (top s) (wr s) of (r, t) \<Rightarrow> s\<lparr>top := t\<rparr>)
      | Read n \<Rightarrow>
          (case kpub_read quiet (top s) (rd s) n of
             (r, t, f, out) \<Rightarrow> s\<lparr>top := t, rd := f, got := got s @ out\<rparr>)
      | Write d \<Rightarrow>
          (case kpub_write quiet (top s) (wr s) d (of_nat (length d)) of
             (r, t, f) \<Rightarrow>
               s\<lparr>top := t, wr := f,
                 put := put s @ (case r of Inl er \<Rightarrow> [] | Inr k \<Rightarrow> take (unat k) d)\<rparr>))"

definition run :: "sys \<Rightarrow> op list \<Rightarrow> sys" where
  "run s xs = foldl step s xs"

text \<open>
  A fresh topic configured through the two stores with \<open>msg_size = 4\<close> and
  \<open>msg_count = 4\<close> (a page of 4096 bytes), a file opened \<open>O_RDONLY | O_NONBLOCK\<close>
  and a file opened \<open>O_WRONLY | O_NONBLOCK\<close>.
\<close>

definition topic16 :: topic where
  "topic16 = snd (msg_count_store quiet (snd (msg_size_store 4096 quiet new_topic 4 4)) 4 4)"

definition reader_file :: kfile where
  "reader_file = \<lparr>fmode_read = True, fmode_write = False, o_nonblock = True, f_pos = 0\<rparr>"

definition writer_file :: kfile where
  "writer_file = \<lparr>fmode_read = False, fmode_write = True, o_nonblock = True, f_pos = 0\<rparr>"

definition sys0 :: sys where
  "sys0 = \<lparr>top = topic16, rd = reader_file, wr = writer_file, got = [], put = []\<rparr>"

text \<open>
  Successive reads of one topic, each by some file in some environment; \<open>None\<close>
  as soon as one of them does not return a length.
\<close>

fun reads :: "topic \<Rightarrow> (env \<times> kfile \<times> size_t) list \<Rightarrow> topic option" where
  "reads t [] = Some t"
| "reads t ((e, f, n) # rs) =
     (case kpub_read e t f n of
        (Inl er, t', f', out) \<Rightarrow> None
      | (Inr k, t', f', out) \<Rightarrow> reads t' rs)"

text \<open>
  The clamp of a write as the specification words it: against \<open>tail_pos\<close>
  (\<open>rp\<close>), up to the end of the buffer when \<open>write_pos \<ge> tail_pos\<close>, up to
  \<open>tail_pos\<close> otherwise.
\<close>

definition spec_write_clamp :: "topic \<Rightarrow> size_t \<Rightarrow> size_t" where
  "spec_write_clamp t len0 =
     (if rp t \<le> wp t then min len0 (topic_size t - ucast (wp t))
      else min len0 (ucast (rp t) - ucast (wp t)))"

text \<open>Three states of the channel that the traces below reach.\<close>

definition opened_topic :: topic where
  "opened_topic = top (run sys0 [OpenR, OpenW])"

definition pending_topic :: topic where
  "pending_topic = top (run sys0 [OpenR, OpenW, Write [1, 2, 3, 4, 5, 6, 7, 8, 9, 10, 11, 12]])"

definition drained_topic :: topic where
  "drained_topic = top (run sys0 [OpenR, OpenW, Write [1, 2, 3, 4, 5, 6, 7, 8], Read 4])"

section \<open>Traces of the channel\<close>

lemma run_snoc: "run s (xs @ [x]) = step (run s xs) x"
  by (simp add: run_def)

lemma replicate_16: "replicate 16 (0::u8) = [0, 0, 0, 0, 0, 0, 0, 0, 0, 0, 0, 0, 0, 0, 0, 0]"
  by (simp add: eval_nat_numeral)

lemma topic16_eq:
  "topic16 = \<lparr>msg_size = 4, msg_count = 4, nreaders = 0, nwriters = 0,
     wp = 0, rp = 0, len = 0, rcount = 0, buf = None\<rparr>"
  by (simp add: topic16_def new_topic_def msg_size_store_def msg_count_store_def
        MAX_MSG_SIZE_def MAX_MSG_COUNT_def quiet_def)

text \<open>
  The state after each prefix of three traces on \<open>sys0\<close>, one call at a time.
  The first trace overwrites bytes that the reader has not read, the second
  drives \<open>rp\<close> out of the buffer, the third fills the buffer in one write.
\<close>

lemma run_o0:
  "run sys0 [] =
     \<lparr>top =
        \<lparr>msg_size = 4, msg_count = 4, nreaders = 0, nwriters = 0,
          wp = 0, rp = 0, len = 0, rcount = 0,
          buf = None\<rparr>,
      rd = \<lparr>fmode_read = True, fmode_write = False, o_nonblock = True, f_pos = 0\<rparr>,
      wr = \<lparr>fmode_read = False, fmode_write = True, o_nonblock = True, f_pos = 0\<rparr>,
      got = [],
      put = []\<rparr>"
  by (simp add: run_def sys0_def topic16_def reader_file_def writer_file_def new_topic_def
        msg_size_store_def msg_count_store_def MAX_MSG_SIZE_def MAX_MSG_COUNT_def quiet_def)

lemma run_o1:
  "run sys0 [OpenR] =
     \<lparr>top =
        \<lparr>msg_size = 4, msg_count = 4, nreaders = 1, nwriters = 0,
          wp = 0, rp = 0, len = 0, rcount = 0,
          buf = Some [0, 0, 0, 0, 0, 0, 0, 0, 0, 0, 0, 0, 0, 0, 0, 0]\<rparr>,
      rd = \<lparr>fmode_read = True, fmode_write = False, o_nonblock = True, f_pos = 0\<rparr>,
      wr = \<lparr>fmode_read = False, fmode_write = True, o_nonblock = True, f_pos = 0\<rparr>,
      got = [],
      put = []\<rparr>"
  using run_snoc [of sys0 "[]" "OpenR"]
  by (simp add: run_o0 step_def kpub_open_def kpub_read_def kpub_write_def quiet_def topic_size_def
        copy_to_user_def copy_from_user_def kzalloc_def Let_def replicate_16)

lemma run_o2:
  "run sys0 [OpenR, OpenW] =
     \<lparr>top =
        \<lparr>msg_size = 4, msg_count = 4, nreaders = 1, nwriters = 1,
          wp = 0, rp = 0, len = 0, rcount = 0,
          buf = Some [0, 0, 0, 0, 0, 0, 0, 0, 0, 0, 0, 0, 0, 0, 0, 0]\<rparr>,
      rd = \<lparr>fmode_read = True, fmode_write = False, o_nonblock = True, f_pos = 0\<rparr>,
      wr = \<lparr>fmode_read = False, fmode_write = True, o_nonblock = True, f_pos = 0\<rparr>,
      got = [],
      put = []\<rparr>"
  using run_snoc [of sys0 "[OpenR]" "OpenW"]
  by (simp add: run_o1 step_def kpub_open_def kpub_read_def kpub_write_def quiet_def topic_size_def
        copy_to_user_def copy_from_user_def kzalloc_def Let_def)

lemma run_a3:
  "run sys0 [OpenR, OpenW, Write [1, 2, 3, 4, 5, 6, 7, 8, 9, 10, 11, 12]] =
     \<lparr>top =
        \<lparr>msg_size = 4, msg_count = 4, nreaders = 1, nwriters = 1,
          wp = 12, rp = 0, len = 12, rcount = 1,
          buf = Some [1, 2, 3, 4, 5, 6, 7, 8, 9, 10, 11, 12, 0, 0, 0, 0]\<rparr>,
      rd = \<lparr>fmode_read = True, fmode_write = False, o_nonblock = True, f_pos = 0\<rparr>,
      wr = \<lparr>fmode_read = False, fmode_write = True, o_nonblock = True, f_pos = 0\<rparr>,
      got = [],
      put = [1, 2, 3, 4, 5, 6, 7, 8, 9, 10, 11, 12]\<rparr>"
  using run_snoc [of sys0 "[OpenR, OpenW]" "Write [1, 2, 3, 4, 5, 6, 7, 8, 9, 10, 11, 12]"]
  by (simp add: run_o2 step_def kpub_open_def kpub_read_def kpub_write_def quiet_def topic_size_def
        copy_to_user_def copy_from_user_def kzalloc_def Let_def)

lemma run_a4:
  "run sys0 [OpenR, OpenW, Write [1, 2, 3, 4, 5, 6, 7, 8, 9, 10, 11, 12], Read 4] =
     \<lparr>top =
        \<lparr>msg_size = 4, msg_count = 4, nreaders = 1, nwriters = 1,
          wp = 12, rp = 4, len = 8, rcount = 0,
          buf = Some [1, 2, 3, 4, 5, 6, 7, 8, 9, 10, 11, 12, 0, 0, 0, 0]\<rparr>,
      rd = \<lparr>fmode_read = True, fmode_write = False, o_nonblock = True, f_pos = 4\<rparr>,
      wr = \<lparr>fmode_read = False, fmode_write = True, o_nonblock = True, f_pos = 0\<rparr>,
      got = [1, 2, 3, 4],
      put = [1, 2, 3, 4, 5, 6, 7, 8, 9, 10, 11, 12]\<rparr>"
  using run_snoc [of sys0 "[OpenR, OpenW, Write [1, 2, 3, 4, 5, 6, 7, 8, 9, 10, 11, 12]]" "Read 4"]
  by (simp add: run_a3 step_def kpub_open_def kpub_read_def kpub_write_def quiet_def topic_size_def
        copy_to_user_def copy_from_user_def kzalloc_def Let_def)

lemma run_a5:
  "run sys0 [OpenR, OpenW, Write [1, 2, 3, 4, 5, 6, 7, 8, 9, 10, 11, 12], Read 4, Write [13, 14, 15, 16]] =
     \<lparr>top =
        \<lparr>msg_size = 4, msg_count = 4, nreaders = 1, nwriters = 1,
          wp = 0, rp = 4, len = 12, rcount = 1,
          buf = Some [1, 2, 3, 4, 5, 6, 7, 8, 9, 10, 11, 12, 13, 14, 15, 16]\<rparr>,
      rd = \<lparr>fmode_read = True, fmode_write = False, o_nonblock = True, f_pos = 4\<rparr>,
      wr = \<lparr>fmode_read = False, fmode_write = True, o_nonblock = True, f_pos = 0\<rparr>,
      got = [1, 2, 3, 4],
      put = [1, 2, 3, 4, 5, 6, 7, 8, 9, 10, 11, 12, 13, 14, 15, 16]\<rparr>"
  using run_snoc [of sys0 "[OpenR, OpenW, Write [1, 2, 3, 4, 5, 6, 7, 8, 9, 10, 11, 12], Read 4]" "Write [13, 14, 15, 16]"]
  by (simp add: run_a4 step_def kpub_open_def kpub_read_def kpub_write_def quiet_def topic_size_def
        copy_to_user_def copy_from_user_def kzalloc_def Let_def)

lemma run_a6:
  "run sys0 [OpenR, OpenW, Write [1, 2, 3, 4, 5, 6, 7, 8, 9, 10, 11, 12], Read 4, Write [13, 14, 15, 16], Write [21, 22, 23, 24, 25, 26, 27, 28]] =
     \<lparr>top =
        \<lparr>msg_size = 4, msg_count = 4, nreaders = 1, nwriters = 1,
          wp = 8, rp = 4, len = 20, rcount = 1,
          buf = Some [21, 22, 23, 24, 25, 26, 27, 28, 9, 10, 11, 12, 13, 14, 15, 16]\<rparr>,
      rd = \<lparr>fmode_read = True, fmode_write = False, o_nonblock = True, f_pos = 4\<rparr>,
      wr = \<lparr>fmode_read = False, fmode_write = True, o_nonblock = True, f_pos = 0\<rparr>,
      got = [1, 2, 3, 4],
      put = [1, 2, 3, 4, 5, 6, 7, 8, 9, 10, 11, 12, 13, 14, 15, 16, 21, 22, 23, 24, 25, 26, 27, 28]\<rparr>"
  using run_snoc [of sys0 "[OpenR, OpenW, Write [1, 2, 3, 4, 5, 6, 7, 8, 9, 10, 11, 12], Read 4, Write [13, 14, 15, 16]]" "Write [21, 22, 23, 24, 25, 26, 27, 28]"]
  by (simp add: run_a5 step_def kpub_open_def kpub_read_def kpub_write_def quiet_def topic_size_def
        copy_to_user_def copy_from_user_def kzalloc_def Let_def)

lemma run_a7:
  "run sys0 [OpenR, OpenW, Write [1, 2, 3, 4, 5, 6, 7, 8, 9, 10, 11, 12], Read 4, Write [13, 14, 15, 16], Write [21, 22, 23, 24, 25, 26, 27, 28], Read 4] =
     \<lparr>top =
        \<lparr>msg_size = 4, msg_count = 4, nreaders = 1, nwriters = 1,
          wp = 8, rp = 8, len = 16, rcount = 0,
          buf = Some [21, 22, 23, 24, 25, 26, 27, 28, 9, 10, 11, 12, 13, 14, 15, 16]\<rparr>,
      rd = \<lparr>fmode_read = True, fmode_write = False, o_nonblock = True, f_pos = 8\<rparr>,
      wr = \<lparr>fmode_read = False, fmode_write = True, o_nonblock = True, f_pos = 0\<rparr>,
      got = [1, 2, 3, 4, 25, 26, 27, 28],
      put = [1, 2, 3, 4, 5, 6, 7, 8, 9, 10, 11, 12, 13, 14, 15, 16, 21, 22, 23, 24, 25, 26, 27, 28]\<rparr>"
  using run_snoc [of sys0 "[OpenR, OpenW, Write [1, 2, 3, 4, 5, 6, 7, 8, 9, 10, 11, 12], Read 4, Write [13, 14, 15, 16], Write [21, 22, 23, 24, 25, 26, 27, 28]]" "Read 4"]
  by (simp add: run_a6 step_def kpub_open_def kpub_read_def kpub_write_def quiet_def topic_size_def
        copy_to_user_def copy_from_user_def kzalloc_def Let_def)

lemma run_b3:
  "run sys0 [OpenR, OpenW, Write [1, 2, 3, 4, 5, 6, 7, 8]] =
     \<lparr>top =
        \<lparr>msg_size = 4, msg_count = 4, nreaders = 1, nwriters = 1,
          wp = 8, rp = 0, len = 8, rcount = 1,
          buf = Some [1, 2, 3, 4, 5, 6, 7, 8, 0, 0, 0, 0, 0, 0, 0, 0]\<rparr>,
      rd = \<lparr>fmode_read = True, fmode_write = False, o_nonblock = True, f_pos = 0\<rparr>,
      wr = \<lparr>fmode_read = False, fmode_write = True, o_nonblock = True, f_pos = 0\<rparr>,
      got = [],
      put = [1, 2, 3, 4, 5, 6, 7, 8]\<rparr>"
  using run_snoc [of sys0 "[OpenR, OpenW]" "Write [1, 2, 3, 4, 5, 6, 7, 8]"]
  by (simp add: run_o2 step_def kpub_open_def kpub_read_def kpub_write_def quiet_def topic_size_def
        copy_to_user_def copy_from_user_def kzalloc_def Let_def)

lemma run_b4:
  "run sys0 [OpenR, OpenW, Write [1, 2, 3, 4, 5, 6, 7, 8], Read 4] =
     \<lparr>top =
        \<lparr>msg_size = 4, msg_count = 4, nreaders = 1, nwriters = 1,
          wp = 8, rp = 4, len = 4, rcount = 0,
          buf = Some [1, 2, 3, 4, 5, 6, 7, 8, 0, 0, 0, 0, 0, 0, 0, 0]\<rparr>,
      rd = \<lparr>fmode_read = True, fmode_write = False, o_nonblock = True, f_pos = 4\<rparr>,
      wr = \<lparr>fmode_read = False, fmode_write = True, o_nonblock = True, f_pos = 0\<rparr>,
      got = [1, 2, 3, 4],
      put = [1, 2, 3, 4, 5, 6, 7, 8]\<rparr>"
  using run_snoc [of sys0 "[OpenR, OpenW, Write [1, 2, 3, 4, 5, 6, 7, 8]]" "Read 4"]
  by (simp add: run_b3 step_def kpub_open_def kpub_read_def kpub_write_def quiet_def topic_size_def
        copy_to_user_def copy_from_user_def kzalloc_def Let_def)

lemma run_b5:
  "run sys0 [OpenR, OpenW, Write [1, 2, 3, 4, 5, 6, 7, 8], Read 4, Read 4] =
     \<lparr>top =
        \<lparr>msg_size = 4, msg_count = 4, nreaders = 1, nwriters = 1,
          wp = 8, rp = 4, len = 4, rcount = 4294967295,
          buf = Some [1, 2, 3, 4, 5, 6, 7, 8, 0, 0, 0, 0, 0, 0, 0, 0]\<rparr>,
      rd = \<lparr>fmode_read = True, fmode_write = False, o_nonblock = True, f_pos = 8\<rparr>,
      wr = \<lparr>fmode_read = False, fmode_write = True, o_nonblock = True, f_pos = 0\<rparr>,
      got = [1, 2, 3, 4, 5, 6, 7, 8],
      put = [1, 2, 3, 4, 5, 6, 7, 8]\<rparr>"
  using run_snoc [of sys0 "[OpenR, OpenW, Write [1, 2, 3, 4, 5, 6, 7, 8], Read 4]" "Read 4"]
  by (simp add: run_b4 step_def kpub_open_def kpub_read_def kpub_write_def quiet_def topic_size_def
        copy_to_user_def copy_from_user_def kzalloc_def Let_def)

lemma run_b6:
  "run sys0 [OpenR, OpenW, Write [1, 2, 3, 4, 5, 6, 7, 8], Read 4, Read 4, Write [9, 10, 11, 12, 13, 14, 15, 16]] =
     \<lparr>top =
        \<lparr>msg_size = 4, msg_count = 4, nreaders = 1, nwriters = 1,
          wp = 0, rp = 4, len = 12, rcount = 1,
          buf = Some [1, 2, 3, 4, 5, 6, 7, 8, 9, 10, 11, 12, 13, 14, 15, 16]\<rparr>,
      rd = \<lparr>fmode_read = True, fmode_write = False, o_nonblock = True, f_pos = 8\<rparr>,
      wr = \<lparr>fmode_read = False, fmode_write = True, o_nonblock = True, f_pos = 0\<rparr>,
      got = [1, 2, 3, 4, 5, 6, 7, 8],
      put = [1, 2, 3, 4, 5, 6, 7, 8, 9, 10, 11, 12, 13, 14, 15, 16]\<rparr>"
  using run_snoc [of sys0 "[OpenR, OpenW, Write [1, 2, 3, 4, 5, 6, 7, 8], Read 4, Read 4]" "Write [9, 10, 11, 12, 13, 14, 15, 16]"]
  by (simp add: run_b5 step_def kpub_open_def kpub_read_def kpub_write_def quiet_def topic_size_def
        copy_to_user_def copy_from_user_def kzalloc_def Let_def)

lemma run_b7:
  "run sys0 [OpenR, OpenW, Write [1, 2, 3, 4, 5, 6, 7, 8], Read 4, Read 4, Write [9, 10, 11, 12, 13, 14, 15, 16], Read 8] =
     \<lparr>top =
        \<lparr>msg_size = 4, msg_count = 4, nreaders = 1, nwriters = 1,
          wp = 0, rp = 12, len = 4, rcount = 0,
          buf = Some [1, 2, 3, 4, 5, 6, 7, 8, 9, 10, 11, 12, 13, 14, 15, 16]\<rparr>,
      rd = \<lparr>fmode_read = True, fmode_write = False, o_nonblock = True, f_pos = 0\<rparr>,
      wr = \<lparr>fmode_read = False, fmode_write = True, o_nonblock = True, f_pos = 0\<rparr>,
      got = [1, 2, 3, 4, 5, 6, 7, 8, 9, 10, 11, 12, 13, 14, 15, 16],
      put = [1, 2, 3, 4, 5, 6, 7, 8, 9, 10, 11, 12, 13, 14, 15, 16]\<rparr>"
  using run_snoc [of sys0 "[OpenR, OpenW, Write [1, 2, 3, 4, 5, 6, 7, 8], Read 4, Read 4, Write [9, 10, 11, 12, 13, 14, 15, 16]]" "Read 8"]
  by (simp add: run_b6 step_def kpub_open_def kpub_read_def kpub_write_def quiet_def topic_size_def
        copy_to_user_def copy_from_user_def kzalloc_def Let_def)

lemma run_b8:
  "run sys0 [OpenR, OpenW, Write [1, 2, 3, 4, 5, 6, 7, 8], Read 4, Read 4, Write [9, 10, 11, 12, 13, 14, 15, 16], Read 8, Write [17, 18, 19, 20, 21, 22, 23, 24]] =
     \<lparr>top =
        \<lparr>msg_size = 4, msg_count = 4, nreaders = 1, nwriters = 1,
          wp = 8, rp = 12, len = 12, rcount = 1,
          buf = Some [17, 18, 19, 20, 21, 22, 23, 24, 9, 10, 11, 12, 13, 14, 15, 16]\<rparr>,
      rd = \<lparr>fmode_read = True, fmode_write = False, o_nonblock = True, f_pos = 0\<rparr>,
      wr = \<lparr>fmode_read = False, fmode_write = True, o_nonblock = True, f_pos = 0\<rparr>,
      got = [1, 2, 3, 4, 5, 6, 7, 8, 9, 10, 11, 12, 13, 14, 15, 16],
      put = [1, 2, 3, 4, 5, 6, 7, 8, 9, 10, 11, 12, 13, 14, 15, 16, 17, 18, 19, 20, 21, 22, 23, 24]\<rparr>"
  using run_snoc [of sys0 "[OpenR, OpenW, Write [1, 2, 3, 4, 5, 6, 7, 8], Read 4, Read 4, Write [9, 10, 11, 12, 13, 14, 15, 16], Read 8]" "Write [17, 18, 19, 20, 21, 22, 23, 24]"]
  by (simp add: run_b7 step_def kpub_open_def kpub_read_def kpub_write_def quiet_def topic_size_def
        copy_to_user_def copy_from_user_def kzalloc_def Let_def)

lemma run_b9:
  "run sys0 [OpenR, OpenW, Write [1, 2, 3, 4, 5, 6, 7, 8], Read 4, Read 4, Write [9, 10, 11, 12, 13, 14, 15, 16], Read 8, Write [17, 18, 19, 20, 21, 22, 23, 24], Read 8] =
     \<lparr>top =
        \<lparr>msg_size = 4, msg_count = 4, nreaders = 1, nwriters = 1,
          wp = 8, rp = 20, len = 4, rcount = 0,
          buf = Some [17, 18, 19, 20, 21, 22, 23, 24, 9, 10, 11, 12, 13, 14, 15, 16]\<rparr>,
      rd = \<lparr>fmode_read = True, fmode_write = False, o_nonblock = True, f_pos = 8\<rparr>,
      wr = \<lparr>fmode_read = False, fmode_write = True, o_nonblock = True, f_pos = 0\<rparr>,
      got = [1, 2, 3, 4, 5, 6, 7, 8, 9, 10, 11, 12, 13, 14, 15, 16, 17, 18, 19, 20, 21, 22, 23, 24],
      put = [1, 2, 3, 4, 5, 6, 7, 8, 9, 10, 11, 12, 13, 14, 15, 16, 17, 18, 19, 20, 21, 22, 23, 24]\<rparr>"
  using run_snoc [of sys0 "[OpenR, OpenW, Write [1, 2, 3, 4, 5, 6, 7, 8], Read 4, Read 4, Write [9, 10, 11, 12, 13, 14, 15, 16], Read 8, Write [17, 18, 19, 20, 21, 22, 23, 24]]" "Read 8"]
  by (simp add: run_b8 step_def kpub_open_def kpub_read_def kpub_write_def quiet_def topic_size_def
        copy_to_user_def copy_from_user_def kzalloc_def Let_def)

lemma run_c3:
  "run sys0 [OpenR, OpenW, Write [1, 2, 3, 4, 5, 6, 7, 8, 9, 10, 11, 12, 13, 14, 15, 16]] =
     \<lparr>top =
        \<lparr>msg_size = 4, msg_count = 4, nreaders = 1, nwriters = 1,
          wp = 0, rp = 0, len = 16, rcount = 1,
          buf = Some [1, 2, 3, 4, 5, 6, 7, 8, 9, 10, 11, 12, 13, 14, 15, 16]\<rparr>,
      rd = \<lparr>fmode_read = True, fmode_write = False, o_nonblock = True, f_pos = 0\<rparr>,
      wr = \<lparr>fmode_read = False, fmode_write = True, o_nonblock = True, f_pos = 0\<rparr>,
      got = [],
      put = [1, 2, 3, 4, 5, 6, 7, 8, 9, 10, 11, 12, 13, 14, 15, 16]\<rparr>"
  using run_snoc [of sys0 "[OpenR, OpenW]" "Write [1, 2, 3, 4, 5, 6, 7, 8, 9, 10, 11, 12, 13, 14, 15, 16]"]
  by (simp add: run_o2 step_def kpub_open_def kpub_read_def kpub_write_def quiet_def topic_size_def
        copy_to_user_def copy_from_user_def kzalloc_def Let_def)

lemma opened_topic_eq:
  "opened_topic = \<lparr>msg_size = 4, msg_count = 4, nreaders = 1, nwriters = 1,
     wp = 0, rp = 0, len = 0, rcount = 0,
     buf = Some [0, 0, 0, 0, 0, 0, 0, 0, 0, 0, 0, 0, 0, 0, 0, 0]\<rparr>"
  by (simp add: opened_topic_def run_o2)

lemma pending_topic_eq:
  "pending_topic = \<lparr>msg_size = 4, msg_count = 4, nreaders = 1, nwriters = 1,
     wp = 12, rp = 0, len = 12, rcount = 1,
     buf = Some [1, 2, 3, 4, 5, 6, 7, 8, 9, 10, 11, 12, 0, 0, 0, 0]\<rparr>"
  by (simp add: pending_topic_def run_a3)

lemma drained_topic_eq:
  "drained_topic = \<lparr>msg_size = 4, msg_count = 4, nreaders = 1, nwriters = 1,
     wp = 8, rp = 4, len = 4, rcount = 0,
     buf = Some [1, 2, 3, 4, 5, 6, 7, 8, 0, 0, 0, 0, 0, 0, 0, 0]\<rparr>"
  by (simp add: drained_topic_def run_b4)

section \<open>What one read and one write do to the gate\<close>

text \<open>Narrowing a 64-bit sum or difference to 32 bits, as \<open>rp += len\<close> and \<open>len -= len\<close> do.\<close>

lemma narrow_id: "(ucast (ucast (a :: u32) :: size_t) :: u32) = a"
  by (rule ucast_up_ucast_id) (simp add: is_up)

lemma take_bit_32_64_add:
  "take_bit 32 (take_bit 64 x + take_bit 64 y) = take_bit 32 (x + y)" for x y :: int
proof -
  have "take_bit 32 (take_bit 64 x + take_bit 64 y)
      = take_bit 32 (take_bit 32 (take_bit 64 x) + take_bit 32 (take_bit 64 y))"
    by (simp only: take_bit_add)
  also have "\<dots> = take_bit 32 (take_bit 32 x + take_bit 32 y)"
    by simp
  also have "\<dots> = take_bit 32 (x + y)"
    by (simp only: take_bit_add)
  finally show ?thesis .
qed

lemma take_bit_32_64_diff:
  "take_bit 32 (take_bit 64 x - take_bit 64 y) = take_bit 32 (x - y)" for x y :: int
proof -
  have "take_bit 32 (take_bit 64 x - take_bit 64 y)
      = take_bit 32 (take_bit 32 (take_bit 64 x) - take_bit 32 (take_bit 64 y))"
    by (simp only: take_bit_diff)
  also have "\<dots> = take_bit 32 (take_bit 32 x - take_bit 32 y)"
    by simp
  also have "\<dots> = take_bit 32 (x - y)"
    by (simp only: take_bit_diff)
  finally show ?thesis .
qed

lemma narrow_plus: "(ucast (x + y) :: u32) = ucast x + ucast y" for x y :: size_t
  by transfer (simp add: take_bit_32_64_add)

lemma narrow_minus: "(ucast (x - y) :: u32) = ucast x - ucast y" for x y :: size_t
  by transfer (simp add: take_bit_32_64_diff)

lemma narrow_add: "(ucast ((ucast (a :: u32) :: size_t) + b) :: u32) = a + ucast b"
  by (simp add: narrow_plus narrow_id)

lemma narrow_sub: "(ucast ((ucast (a :: u32) :: size_t) - b) :: u32) = a - ucast b"
  by (simp add: narrow_minus narrow_id)

lemma kpub_read_rcount:
  assumes "kpub_read e t f n = (Inr k, t', f', out)"
  shows "rcount t' = rcount t - 1"
  using assms
  by (auto simp: kpub_read_def Let_def split: if_splits sum.splits)

lemma kpub_read_no_reclaim:
  assumes "kpub_read e t f n = (Inr k, t', f', out)" and "rcount t \<noteq> 1"
  shows "rp t' = rp t \<and> len t' = len t"
  using assms
  by (auto simp: kpub_read_def Let_def split: if_splits sum.splits)

lemma kpub_read_reclaim:
  assumes "kpub_read e t f n = (Inr k, t', f', out)" and "rcount t = 1"
  shows "len t' = len t - ucast k"
    and "rp t' = (if (ucast (rp t + ucast k) :: size_t) = topic_size t then 0 else rp t + ucast k)"
  using assms
  by (auto simp: kpub_read_def Let_def narrow_add narrow_sub split: if_splits sum.splits)

lemma kpub_write_rcount:
  assumes "kpub_write e t f ubuf n = (Inr k, t', f')"
  shows "rcount t' = nreaders t"
  using assms
  by (auto simp: kpub_write_def Let_def split: if_splits sum.splits)

lemma kpub_write_len:
  assumes "kpub_write e t f ubuf n = (Inr k, t', f')"
  shows "len t' = len t + ucast k"
  using assms
  by (auto simp: kpub_write_def Let_def narrow_add split: if_splits sum.splits)

lemma reads_rcount:
  "reads t rs = Some t' \<Longrightarrow> rcount t' = rcount t - of_nat (length rs)"
proof (induction rs arbitrary: t)
  case Nil
  then show ?case by simp
next
  case (Cons r rs)
  obtain e f n where r: "r = (e, f, n)" by (cases r)
  obtain res t1 f1 out where rd: "kpub_read e t f n = (res, t1, f1, out)"
    by (metis prod_cases4)
  show ?case
  proof (cases res)
    case (Inl er)
    with Cons.prems r rd show ?thesis by simp
  next
    case (Inr k)
    with Cons.prems r rd have "reads t1 rs = Some t'" by simp
    then have "rcount t' = rcount t1 - of_nat (length rs)" by (rule Cons.IH)
    moreover have "rcount t1 = rcount t - 1"
      using rd Inr by (simp add: kpub_read_rcount)
    ultimately show ?thesis by simp
  qed
qed

lemma of_nat_u32_zero: "(of_nat k :: u32) = 0 \<longleftrightarrow> 2 ^ 32 dvd k"
  by (simp add: word_of_nat_eq_0_iff)

lemma reads_no_reclaim:
  "reads t rs = Some t' \<Longrightarrow> (\<forall>j < length rs. rcount t - of_nat j \<noteq> 1) \<Longrightarrow>
     rp t' = rp t \<and> len t' = len t"
proof (induction rs arbitrary: t)
  case Nil
  then show ?case by simp
next
  case (Cons r rs)
  obtain e f n where r: "r = (e, f, n)" by (cases r)
  obtain res t1 f1 out where rd: "kpub_read e t f n = (res, t1, f1, out)"
    by (metis prod_cases4)
  show ?case
  proof (cases res)
    case (Inl er)
    with Cons.prems r rd show ?thesis by simp
  next
    case (Inr k)
    with Cons.prems r rd have rest: "reads t1 rs = Some t'" by simp
    have rc1: "rcount t1 = rcount t - 1"
      using rd Inr by (simp add: kpub_read_rcount)
    have "rcount t \<noteq> 1" using Cons.prems(2) by force
    then have same1: "rp t1 = rp t \<and> len t1 = len t"
      using rd Inr kpub_read_no_reclaim by blast
    have "\<forall>j < length rs. rcount t1 - of_nat j \<noteq> 1"
    proof (intro allI impI)
      fix j assume "j < length rs"
      then have "Suc j < length (r # rs)" by simp
      then have "rcount t - of_nat (Suc j) \<noteq> 1" using Cons.prems(2) by blast
      then show "rcount t1 - of_nat j \<noteq> 1" by (simp add: rc1 algebra_simps)
    qed
    then have "rp t' = rp t1 \<and> len t' = len t1" using rest Cons.IH by blast
    with same1 show ?thesis by simp
  qed
qed

section \<open>Byte order between one writer and one reader\<close>

text \<open>
  Claim C1 says that with one reader and one writer the bytes returned by the
  reads are the bytes accepted by the writes, in order. The code does not keep
  this. Both files are open before the first write. The writer writes bytes
  1..12, the reader reads 4 bytes, the writer writes 13..16 (\<open>wp\<close> wraps to 0)
  and then 21..28: the clamp compares \<open>wp = 0\<close> with the writer's own
  \<open>f_pos = 0\<close>, so all 8 bytes are accepted and 25..28 land on the unread
  bytes 5..8. The next read of 4 bytes returns 25..28: the bytes read are not
  even a prefix of the bytes written.
\<close>

theorem reader_sees_overwritten_bytes:
  "got (run sys0 [OpenR, OpenW, Write [1, 2, 3, 4, 5, 6, 7, 8, 9, 10, 11, 12], Read 4, Write [13, 14, 15, 16], Write [21, 22, 23, 24, 25, 26, 27, 28], Read 4]) = [1, 2, 3, 4, 25, 26, 27, 28] \<and>
   put (run sys0 [OpenR, OpenW, Write [1, 2, 3, 4, 5, 6, 7, 8, 9, 10, 11, 12], Read 4, Write [13, 14, 15, 16], Write [21, 22, 23, 24, 25, 26, 27, 28], Read 4]) = [1, 2, 3, 4, 5, 6, 7, 8, 9, 10, 11, 12, 13, 14, 15, 16, 21, 22, 23, 24, 25, 26, 27, 28] \<and>
   \<not> prefix (got (run sys0 [OpenR, OpenW, Write [1, 2, 3, 4, 5, 6, 7, 8, 9, 10, 11, 12], Read 4, Write [13, 14, 15, 16], Write [21, 22, 23, 24, 25, 26, 27, 28], Read 4]))
       (put (run sys0 [OpenR, OpenW, Write [1, 2, 3, 4, 5, 6, 7, 8, 9, 10, 11, 12], Read 4, Write [13, 14, 15, 16], Write [21, 22, 23, 24, 25, 26, 27, 28], Read 4]))"
  by (simp add: run_a7)

section \<open>The gate step of a read\<close>

text \<open>
  Claim C2 says that the read which brings \<open>rcount\<close> to zero advances \<open>rp\<close> by
  the bytes read modulo the capacity. The code adds the length and resets \<open>rp\<close>
  only when the sum is exactly the capacity. After the trace below \<open>rp\<close> is 12
  and \<open>rcount\<close> is 1 on a 16-byte buffer; the next read returns 8 bytes and
  leaves \<open>rp = 20\<close>, where \<open>(12 + 8) mod 16 = 4\<close>. (The decrement of \<open>rcount\<close>
  and the decrease of \<open>len\<close> are as the claim says: \<open>kpub_read_rcount\<close>,
  \<open>kpub_read_reclaim\<close>, \<open>kpub_read_no_reclaim\<close>, \<open>kpub_write_len\<close>.)
\<close>

theorem read_leaves_rp_outside_buffer:
  "rp (top (run sys0 [OpenR, OpenW, Write [1, 2, 3, 4, 5, 6, 7, 8], Read 4, Read 4, Write [9, 10, 11, 12, 13, 14, 15, 16], Read 8, Write [17, 18, 19, 20, 21, 22, 23, 24]])) = 12 \<and>
   rcount (top (run sys0 [OpenR, OpenW, Write [1, 2, 3, 4, 5, 6, 7, 8], Read 4, Read 4, Write [9, 10, 11, 12, 13, 14, 15, 16], Read 8, Write [17, 18, 19, 20, 21, 22, 23, 24]])) = 1 \<and>
   topic_size (top (run sys0 [OpenR, OpenW, Write [1, 2, 3, 4, 5, 6, 7, 8], Read 4, Read 4, Write [9, 10, 11, 12, 13, 14, 15, 16], Read 8, Write [17, 18, 19, 20, 21, 22, 23, 24]])) = 16 \<and>
   rp (top (run sys0 [OpenR, OpenW, Write [1, 2, 3, 4, 5, 6, 7, 8], Read 4, Read 4, Write [9, 10, 11, 12, 13, 14, 15, 16], Read 8, Write [17, 18, 19, 20, 21, 22, 23, 24], Read 8])) = 20 \<and>
   rcount (top (run sys0 [OpenR, OpenW, Write [1, 2, 3, 4, 5, 6, 7, 8], Read 4, Read 4, Write [9, 10, 11, 12, 13, 14, 15, 16], Read 8, Write [17, 18, 19, 20, 21, 22, 23, 24], Read 8])) = 0 \<and>
   got (run sys0 [OpenR, OpenW, Write [1, 2, 3, 4, 5, 6, 7, 8], Read 4, Read 4, Write [9, 10, 11, 12, 13, 14, 15, 16], Read 8, Write [17, 18, 19, 20, 21, 22, 23, 24], Read 8]) = [1, 2, 3, 4, 5, 6, 7, 8, 9, 10, 11, 12, 13, 14, 15, 16, 17, 18, 19, 20, 21, 22, 23, 24] \<and>
   (12 + 8) mod 16 = (4::nat)"
  by (simp add: run_b8 run_b9 topic_size_def)

section \<open>Readiness\<close>

text \<open>
  Claim C3 says that poll reports readable exactly when the file position
  differs from \<open>wp\<close>, and writable exactly when \<open>len\<close> is below the capacity.
  \<open>kpub_poll\<close> tests \<open>len > 0\<close> for readable and \<open>len == size\<close> for writable.
  Right after the two opens \<open>len = 0 < 16\<close> and poll reports nothing, not even
  writable, although a write of 4 bytes is accepted. After one write of 16
  bytes poll reports readable and writable, although the reader's position
  equals \<open>wp\<close> and \<open>len\<close> equals the capacity: \<open>kpub_read\<close> and \<open>kpub_write\<close>
  both return \<open>-EAGAIN\<close> there.
\<close>

theorem poll_disagrees_with_read_and_write:
  "kpub_poll (top (run sys0 [OpenR, OpenW])) (wr (run sys0 [OpenR, OpenW])) = 0 \<and>
   len (top (run sys0 [OpenR, OpenW])) = 0 \<and>
   topic_size (top (run sys0 [OpenR, OpenW])) = 16 \<and>
   fst (kpub_write quiet (top (run sys0 [OpenR, OpenW])) (wr (run sys0 [OpenR, OpenW]))
          [1, 2, 3, 4] 4) = Inr 4 \<and>
   kpub_poll (top (run sys0 [OpenR, OpenW, Write [1, 2, 3, 4, 5, 6, 7, 8, 9, 10, 11, 12, 13, 14, 15, 16]])) (rd (run sys0 [OpenR, OpenW, Write [1, 2, 3, 4, 5, 6, 7, 8, 9, 10, 11, 12, 13, 14, 15, 16]]))
     = POLLIN OR POLLRDNORM OR POLLOUT OR POLLWRNORM \<and>
   f_pos (rd (run sys0 [OpenR, OpenW, Write [1, 2, 3, 4, 5, 6, 7, 8, 9, 10, 11, 12, 13, 14, 15, 16]])) = ucast (wp (top (run sys0 [OpenR, OpenW, Write [1, 2, 3, 4, 5, 6, 7, 8, 9, 10, 11, 12, 13, 14, 15, 16]]))) \<and>
   ucast (len (top (run sys0 [OpenR, OpenW, Write [1, 2, 3, 4, 5, 6, 7, 8, 9, 10, 11, 12, 13, 14, 15, 16]]))) = topic_size (top (run sys0 [OpenR, OpenW, Write [1, 2, 3, 4, 5, 6, 7, 8, 9, 10, 11, 12, 13, 14, 15, 16]])) \<and>
   fst (kpub_read quiet (top (run sys0 [OpenR, OpenW, Write [1, 2, 3, 4, 5, 6, 7, 8, 9, 10, 11, 12, 13, 14, 15, 16]])) (rd (run sys0 [OpenR, OpenW, Write [1, 2, 3, 4, 5, 6, 7, 8, 9, 10, 11, 12, 13, 14, 15, 16]])) 4) = Inl EAGAIN \<and>
   fst (kpub_write quiet (top (run sys0 [OpenR, OpenW, Write [1, 2, 3, 4, 5, 6, 7, 8, 9, 10, 11, 12, 13, 14, 15, 16]])) (wr (run sys0 [OpenR, OpenW, Write [1, 2, 3, 4, 5, 6, 7, 8, 9, 10, 11, 12, 13, 14, 15, 16]])) [1, 2, 3, 4] 4) = Inl EAGAIN"
  by (simp add: run_o2 run_c3 kpub_poll_def kpub_read_def kpub_write_def topic_size_def
        copy_from_user_def quiet_def Let_def POLLIN_def POLLRDNORM_def POLLOUT_def POLLWRNORM_def)

section \<open>The clamp of a write\<close>

text \<open>
  Claim C4 says that a write is clamped against \<open>tail_pos\<close> (\<open>rp\<close>): to
  \<open>size - wp\<close> when \<open>wp \<ge> rp\<close> and to \<open>rp - wp\<close> when \<open>wp < rp\<close>. \<open>kpub_write\<close>
  compares \<open>wp\<close> with \<open>*off\<close>, the position of the writer's file, which stays
  where \<open>kpub_open\<close> put it. After the trace below \<open>wp = 0\<close>, \<open>rp = 4\<close> and the
  writer's \<open>f_pos = 0\<close>: a write of 8 bytes is accepted whole, where the clamp
  against \<open>rp\<close> gives 4, and bytes 4..7 of the buffer, which the reader has not
  read, are replaced.
\<close>

theorem write_clamps_against_own_position:
  "wp (top (run sys0 [OpenR, OpenW, Write [1, 2, 3, 4, 5, 6, 7, 8, 9, 10, 11, 12], Read 4, Write [13, 14, 15, 16]])) = 0 \<and>
   rp (top (run sys0 [OpenR, OpenW, Write [1, 2, 3, 4, 5, 6, 7, 8, 9, 10, 11, 12], Read 4, Write [13, 14, 15, 16]])) = 4 \<and>
   f_pos (wr (run sys0 [OpenR, OpenW, Write [1, 2, 3, 4, 5, 6, 7, 8, 9, 10, 11, 12], Read 4, Write [13, 14, 15, 16]])) = 0 \<and>
   f_pos (rd (run sys0 [OpenR, OpenW, Write [1, 2, 3, 4, 5, 6, 7, 8, 9, 10, 11, 12], Read 4, Write [13, 14, 15, 16]])) = 4 \<and>
   fst (kpub_write quiet (top (run sys0 [OpenR, OpenW, Write [1, 2, 3, 4, 5, 6, 7, 8, 9, 10, 11, 12], Read 4, Write [13, 14, 15, 16]]))
          (wr (run sys0 [OpenR, OpenW, Write [1, 2, 3, 4, 5, 6, 7, 8, 9, 10, 11, 12], Read 4, Write [13, 14, 15, 16]])) [21, 22, 23, 24, 25, 26, 27, 28] 8) = Inr 8 \<and>
   spec_write_clamp (top (run sys0 [OpenR, OpenW, Write [1, 2, 3, 4, 5, 6, 7, 8, 9, 10, 11, 12], Read 4, Write [13, 14, 15, 16]])) 8 = 4 \<and>
   buf (top (run sys0 [OpenR, OpenW, Write [1, 2, 3, 4, 5, 6, 7, 8, 9, 10, 11, 12], Read 4, Write [13, 14, 15, 16]])) = Some [1, 2, 3, 4, 5, 6, 7, 8, 9, 10, 11, 12, 13, 14, 15, 16] \<and>
   buf (fst (snd (kpub_write quiet (top (run sys0 [OpenR, OpenW, Write [1, 2, 3, 4, 5, 6, 7, 8, 9, 10, 11, 12], Read 4, Write [13, 14, 15, 16]]))
          (wr (run sys0 [OpenR, OpenW, Write [1, 2, 3, 4, 5, 6, 7, 8, 9, 10, 11, 12], Read 4, Write [13, 14, 15, 16]])) [21, 22, 23, 24, 25, 26, 27, 28] 8)))
     = Some [21, 22, 23, 24, 25, 26, 27, 28, 9, 10, 11, 12, 13, 14, 15, 16]"
  by (simp add: run_a5 kpub_write_def spec_write_clamp_def topic_size_def
        copy_from_user_def quiet_def Let_def)

section \<open>The bound on \<open>len\<close>\<close>

text \<open>
  Claim C5 says that \<open>len\<close> never exceeds the capacity in a reachable state.
  After the trace below (two opens, three writes and one read on the 16-byte
  topic) \<open>len\<close> is 20.
\<close>

theorem len_exceeds_capacity:
  "len (top (run sys0 [OpenR, OpenW, Write [1, 2, 3, 4, 5, 6, 7, 8, 9, 10, 11, 12], Read 4, Write [13, 14, 15, 16], Write [21, 22, 23, 24, 25, 26, 27, 28]])) = 20 \<and>
   topic_size (top (run sys0 [OpenR, OpenW, Write [1, 2, 3, 4, 5, 6, 7, 8, 9, 10, 11, 12], Read 4, Write [13, 14, 15, 16], Write [21, 22, 23, 24, 25, 26, 27, 28]])) = 16 \<and>
   \<not> ucast (len (top (run sys0 [OpenR, OpenW, Write [1, 2, 3, 4, 5, 6, 7, 8, 9, 10, 11, 12], Read 4, Write [13, 14, 15, 16], Write [21, 22, 23, 24, 25, 26, 27, 28]])))
       \<le> topic_size (top (run sys0 [OpenR, OpenW, Write [1, 2, 3, 4, 5, 6, 7, 8, 9, 10, 11, 12], Read 4, Write [13, 14, 15, 16], Write [21, 22, 23, 24, 25, 26, 27, 28]]))"
  by (simp add: run_a6 topic_size_def)

section \<open>Rejected writes\<close>

text \<open>
  Claim C6. On a topic whose \<open>msg_size\<close> is not zero (every topic with an open
  handle), a write whose length is not a multiple of \<open>msg_size\<close>, or is greater
  than \<open>msg_size * msg_count\<close>, returns \<open>-EINVAL\<close> and changes neither the topic
  (buffer, \<open>wp\<close>, \<open>rp\<close>, \<open>len\<close>, \<open>rcount\<close>) nor the file.
\<close>

theorem write_bad_length_rejected:
  assumes "msg_size t \<noteq> 0"
    and "len0 mod ucast (msg_size t) \<noteq> 0 \<or> topic_size t < len0"
  shows "kpub_write e t f ubuf len0 = (Inl EINVAL, t, f)"
  using assms by (auto simp: kpub_write_def Let_def)

text \<open>
  On the opened 16-byte topic with \<open>msg_size = 4\<close>: a write of 6 bytes (not a
  multiple of 4) and a write of 20 bytes (more than 16).
\<close>

theorem write_bad_length_rejected_witness:
  "msg_size opened_topic \<noteq> 0 \<and>
   (6 :: size_t) mod ucast (msg_size opened_topic) \<noteq> 0 \<and>
   kpub_write quiet opened_topic writer_file [1, 2, 3, 4, 5, 6] 6
     = (Inl EINVAL, opened_topic, writer_file) \<and>
   topic_size opened_topic < 20 \<and>
   kpub_write quiet opened_topic writer_file (replicate 20 7) 20
     = (Inl EINVAL, opened_topic, writer_file)"
proof -
  have m: "msg_size opened_topic \<noteq> 0"
    by (simp add: opened_topic_eq)
  have a: "(6 :: size_t) mod ucast (msg_size opened_topic) \<noteq> 0"
    by (simp add: opened_topic_eq)
  have b: "topic_size opened_topic < 20"
    by (simp add: opened_topic_eq topic_size_def)
  from m a b
    write_bad_length_rejected [of opened_topic 6 quiet writer_file "[1, 2, 3, 4, 5, 6]"]
    write_bad_length_rejected [of opened_topic 20 quiet writer_file "replicate 20 7"]
  show ?thesis by simp
qed

section \<open>Configuration\<close>

text \<open>
  Claim C7 as stated (a store with a handle open fails with Busy) is false:
  with one reader open, both stores return \<open>-EINVAL\<close>, the errno of an invalid
  value; the driver has no \<open>EBUSY\<close>.
\<close>

theorem store_while_open_is_einval:
  "nreaders (top (run sys0 [OpenR])) \<noteq> 0 \<and>
   fst (msg_size_store 4096 quiet (top (run sys0 [OpenR])) 8 4) = Inl EINVAL \<and>
   fst (msg_size_store 4096 quiet (top (run sys0 [OpenR])) 8 4) \<noteq> Inl EBUSY \<and>
   fst (msg_count_store quiet (top (run sys0 [OpenR])) 8 4) = Inl EINVAL \<and>
   fst (msg_count_store quiet (top (run sys0 [OpenR])) 8 4) \<noteq> Inl EBUSY"
  by (simp add: run_o1 msg_size_store_def msg_count_store_def quiet_def)

text \<open>
  Claim C7, amended. While a reader or a writer is open, \<open>msg_size_store\<close> and
  \<open>msg_count_store\<close> fail and leave the whole topic as it was, \<open>msg_size\<close> and
  \<open>msg_count\<close> included; the error is \<open>-EINVAL\<close> (\<open>-ERESTARTSYS\<close> only when a
  signal interrupts the lock). With no handle open, storing a value within the
  limit twice succeeds both times and leaves that value.
\<close>

theorem store_while_open_fails:
  "(nreaders t \<noteq> 0 \<or> nwriters t \<noteq> 0 \<longrightarrow>
      msg_size_store pg e t v n
        = (Inl (if 4 < n \<or> \<not> sig_lock e then EINVAL else ERESTARTSYS), t) \<and>
      msg_count_store e t v n
        = (Inl (if 4 < n \<or> \<not> sig_lock e then EINVAL else ERESTARTSYS), t)) \<and>
   (nreaders t = 0 \<and> nwriters t = 0 \<and> n \<le> 4 \<and> \<not> sig_lock e \<and> ucast v \<le> pg \<longrightarrow>
      msg_size_store pg e t v n = (Inr n, t\<lparr>msg_size := v\<rparr>) \<and>
      msg_size_store pg e (t\<lparr>msg_size := v\<rparr>) v n = (Inr n, t\<lparr>msg_size := v\<rparr>)) \<and>
   (nreaders t = 0 \<and> nwriters t = 0 \<and> n \<le> 4 \<and> \<not> sig_lock e \<and> v \<le> 64 \<longrightarrow>
      msg_count_store e t v n = (Inr n, t\<lparr>msg_count := v\<rparr>) \<and>
      msg_count_store e (t\<lparr>msg_count := v\<rparr>) v n = (Inr n, t\<lparr>msg_count := v\<rparr>))"
  by (auto simp: msg_size_store_def msg_count_store_def MAX_MSG_SIZE_def MAX_MSG_COUNT_def
        Let_def not_less)

text \<open>
  With one reader and one writer open (\<open>opened_topic\<close>) the stores fail and
  change nothing; on the closed topic \<open>topic16\<close> storing 4 twice succeeds twice.
\<close>

theorem store_while_open_fails_witness:
  "nreaders opened_topic = 1 \<and> nwriters opened_topic = 1 \<and>
   msg_size_store 4096 quiet opened_topic 8 4 = (Inl EINVAL, opened_topic) \<and>
   msg_count_store quiet opened_topic 8 4 = (Inl EINVAL, opened_topic) \<and>
   nreaders topic16 = 0 \<and> nwriters topic16 = 0 \<and> (4 :: size_t) \<le> 4 \<and> \<not> sig_lock quiet \<and>
   (ucast (4 :: u32) :: size_t) \<le> 4096 \<and> (4 :: u32) \<le> 64 \<and>
   msg_size_store 4096 quiet topic16 4 4 = (Inr 4, topic16\<lparr>msg_size := 4\<rparr>) \<and>
   msg_size_store 4096 quiet (topic16\<lparr>msg_size := 4\<rparr>) 4 4 = (Inr 4, topic16\<lparr>msg_size := 4\<rparr>) \<and>
   msg_count_store quiet topic16 4 4 = (Inr 4, topic16\<lparr>msg_count := 4\<rparr>) \<and>
   msg_count_store quiet (topic16\<lparr>msg_count := 4\<rparr>) 4 4 = (Inr 4, topic16\<lparr>msg_count := 4\<rparr>)"
proof -
  have a: "nreaders opened_topic = 1 \<and> nwriters opened_topic = 1"
    by (simp add: opened_topic_eq)
  have b: "nreaders topic16 = 0 \<and> nwriters topic16 = 0"
    by (simp add: topic16_eq)
  have c: "\<not> sig_lock quiet"
    by (simp add: quiet_def)
  from a b c
    store_while_open_fails [of opened_topic 4096 quiet 8 4]
    store_while_open_fails [of topic16 4096 quiet 4 4]
  show ?thesis by simp
qed

text \<open>
  Claim C8 as stated (a store fails when the value is zero after the update) is
  false: with no handle open, storing 0 succeeds in both stores and leaves 0.
\<close>

theorem store_zero_succeeds:
  "nreaders topic16 = 0 \<and> nwriters topic16 = 0 \<and>
   msg_size_store 4096 quiet topic16 0 4 = (Inr 4, topic16\<lparr>msg_size := 0\<rparr>) \<and>
   msg_size (snd (msg_size_store 4096 quiet topic16 0 4)) = 0 \<and>
   msg_count_store quiet topic16 0 4 = (Inr 4, topic16\<lparr>msg_count := 0\<rparr>) \<and>
   msg_count (snd (msg_count_store quiet topic16 0 4)) = 0"
  by (simp add: topic16_eq msg_size_store_def msg_count_store_def quiet_def
        MAX_MSG_SIZE_def MAX_MSG_COUNT_def)

text \<open>
  Claim C8, amended. With no handle open and no signal at the lock,
  \<open>msg_size_store\<close> fails with \<open>-EINVAL\<close> when the new value is greater than
  \<open>PAGE_SIZE\<close> and \<open>msg_count_store\<close> when it is greater than 64; a store that
  fails this check leaves the field at zero. A new value of zero is stored
  with success (it is \<open>kpub_open\<close> that refuses a zero \<open>msg_size\<close> or
  \<open>msg_count\<close>).
\<close>

theorem store_too_big_fails_zero_is_stored:
  assumes "nreaders t = 0" and "nwriters t = 0" and "\<not> sig_lock e"
  shows "(pg < ucast v \<longrightarrow> fst (msg_size_store pg e t v n) = Inl EINVAL) \<and>
         (64 < v \<longrightarrow> fst (msg_count_store e t v n) = Inl EINVAL) \<and>
         (n \<le> 4 \<and> pg < ucast v \<longrightarrow> snd (msg_size_store pg e t v n) = t\<lparr>msg_size := 0\<rparr>) \<and>
         (n \<le> 4 \<and> 64 < v \<longrightarrow> snd (msg_count_store e t v n) = t\<lparr>msg_count := 0\<rparr>) \<and>
         (n \<le> 4 \<longrightarrow> msg_size_store pg e t 0 n = (Inr n, t\<lparr>msg_size := 0\<rparr>)) \<and>
         (n \<le> 4 \<longrightarrow> msg_count_store e t 0 n = (Inr n, t\<lparr>msg_count := 0\<rparr>)) \<and>
         (kpub_open e' (t\<lparr>msg_size := 0\<rparr>) f = (r, t', f') \<longrightarrow> r \<noteq> Inr ()) \<and>
         (kpub_open e' (t\<lparr>msg_count := 0\<rparr>) f = (r, t', f') \<longrightarrow> r \<noteq> Inr ())"
  using assms
  by (auto simp: msg_size_store_def msg_count_store_def MAX_MSG_SIZE_def MAX_MSG_COUNT_def
        kpub_open_def Let_def not_less)

text \<open>
  On the closed topic \<open>topic16\<close> with a page of 4096 bytes: 5000 is refused as
  \<open>msg_size\<close>, 65 as \<open>msg_count\<close>, both leave zero; zero is accepted, and the
  open that follows fails.
\<close>

theorem store_too_big_fails_zero_is_stored_witness:
  "nreaders topic16 = 0 \<and> nwriters topic16 = 0 \<and> \<not> sig_lock quiet \<and>
   (4096 :: size_t) < ucast (5000 :: u32) \<and> (64 :: u32) < 65 \<and> (4 :: size_t) \<le> 4 \<and>
   msg_size_store 4096 quiet topic16 5000 4 = (Inl EINVAL, topic16\<lparr>msg_size := 0\<rparr>) \<and>
   msg_count_store quiet topic16 65 4 = (Inl EINVAL, topic16\<lparr>msg_count := 0\<rparr>) \<and>
   msg_size_store 4096 quiet topic16 0 4 = (Inr 4, topic16\<lparr>msg_size := 0\<rparr>) \<and>
   msg_count_store quiet topic16 0 4 = (Inr 4, topic16\<lparr>msg_count := 0\<rparr>) \<and>
   kpub_open quiet (topic16\<lparr>msg_size := 0\<rparr>) reader_file
     = (Inl ENOMEM, topic16\<lparr>msg_size := 0\<rparr>, reader_file) \<and>
   kpub_open quiet (topic16\<lparr>msg_count := 0\<rparr>) reader_file
     = (Inl ENOMEM, topic16\<lparr>msg_count := 0\<rparr>, reader_file)"
proof -
  have a: "nreaders topic16 = 0" and b: "nwriters topic16 = 0"
    by (simp_all add: topic16_eq)
  have c: "\<not> sig_lock quiet"
    by (simp add: quiet_def)
  have o1: "kpub_open quiet (topic16\<lparr>msg_size := 0\<rparr>) reader_file
     = (Inl ENOMEM, topic16\<lparr>msg_size := 0\<rparr>, reader_file)"
    by (simp add: kpub_open_def quiet_def)
  have o2: "kpub_open quiet (topic16\<lparr>msg_count := 0\<rparr>) reader_file
     = (Inl ENOMEM, topic16\<lparr>msg_count := 0\<rparr>, reader_file)"
    by (simp add: kpub_open_def quiet_def)
  have s1: "msg_size_store 4096 quiet topic16 5000 4 = (Inl EINVAL, topic16\<lparr>msg_size := 0\<rparr>)"
    using store_too_big_fails_zero_is_stored [OF a b c, of 4096 5000 4]
    by (simp add: prod_eq_iff)
  have s2: "msg_count_store quiet topic16 65 4 = (Inl EINVAL, topic16\<lparr>msg_count := 0\<rparr>)"
    using store_too_big_fails_zero_is_stored [OF a b c, of 4096 65 4]
    by (simp add: prod_eq_iff)
  from a b c o1 o2 s1 s2 store_too_big_fails_zero_is_stored [OF a b c, of 4096 5000 4]
  show ?thesis by simp
qed

section \<open>What an open does to the gate\<close>

text \<open>
  Claim C9. Every open that yields a handle, of a reader or of a writer, sets
  \<open>rp\<close> to \<open>wp\<close> and \<open>len\<close> to zero for the whole topic, whatever was pending
  for the readers already open; it leaves \<open>wp\<close> and \<open>rcount\<close> alone, sets the
  new file's position to \<open>wp\<close> and counts the file as a reader or as a writer.
  And the open does yield a handle, with exactly this effect, whenever no
  signal interrupts the lock, \<open>msg_size\<close> and \<open>msg_count\<close> are not zero, the
  buffer exists or can be allocated, and the file is opened for reading xor
  writing: nothing that is pending (\<open>len\<close>, \<open>rcount\<close>, the position of \<open>rp\<close>)
  can make it fail or keep the accounting.
\<close>

theorem open_resets_tail_and_len:
  "(kpub_open e t f = (Inr (), t', f') \<longrightarrow>
      rp t' = wp t \<and> len t' = 0 \<and> wp t' = wp t \<and> rcount t' = rcount t \<and>
      f_pos f' = ucast (wp t) \<and>
      ((fmode_read f \<and> \<not> fmode_write f \<and>
          nreaders t' = nreaders t + 1 \<and> nwriters t' = nwriters t) \<or>
       (fmode_write f \<and> \<not> fmode_read f \<and>
          nwriters t' = nwriters t + 1 \<and> nreaders t' = nreaders t))) \<and>
   (\<not> sig_lock e \<and> msg_size t \<noteq> 0 \<and> msg_count t \<noteq> 0 \<and>
    (buf t = None \<longrightarrow> \<not> no_mem e) \<and> fmode_read f \<noteq> fmode_write f \<longrightarrow>
      kpub_open e t f =
        (Inr (),
         t\<lparr>nreaders := (if fmode_read f then nreaders t + 1 else nreaders t),
           nwriters := (if fmode_write f then nwriters t + 1 else nwriters t),
           rp := wp t, len := 0,
           buf := (case buf t of
                     None \<Rightarrow> Some (replicate (unat (msg_size t * msg_count t)) 0)
                   | Some b \<Rightarrow> Some b)\<rparr>,
         f\<lparr>f_pos := ucast (wp t)\<rparr>))"
proof (rule conjI)
  show "kpub_open e t f = (Inr (), t', f') \<longrightarrow>
      rp t' = wp t \<and> len t' = 0 \<and> wp t' = wp t \<and> rcount t' = rcount t \<and>
      f_pos f' = ucast (wp t) \<and>
      ((fmode_read f \<and> \<not> fmode_write f \<and>
          nreaders t' = nreaders t + 1 \<and> nwriters t' = nwriters t) \<or>
       (fmode_write f \<and> \<not> fmode_read f \<and>
          nwriters t' = nwriters t + 1 \<and> nreaders t' = nreaders t))"
    by (auto simp: kpub_open_def Let_def split: if_splits option.splits)
next
  show "\<not> sig_lock e \<and> msg_size t \<noteq> 0 \<and> msg_count t \<noteq> 0 \<and>
    (buf t = None \<longrightarrow> \<not> no_mem e) \<and> fmode_read f \<noteq> fmode_write f \<longrightarrow>
      kpub_open e t f =
        (Inr (),
         t\<lparr>nreaders := (if fmode_read f then nreaders t + 1 else nreaders t),
           nwriters := (if fmode_write f then nwriters t + 1 else nwriters t),
           rp := wp t, len := 0,
           buf := (case buf t of
                     None \<Rightarrow> Some (replicate (unat (msg_size t * msg_count t)) 0)
                   | Some b \<Rightarrow> Some b)\<rparr>,
         f\<lparr>f_pos := ucast (wp t)\<rparr>)"
  proof (rule impI)
    assume a: "\<not> sig_lock e \<and> msg_size t \<noteq> 0 \<and> msg_count t \<noteq> 0 \<and>
      (buf t = None \<longrightarrow> \<not> no_mem e) \<and> fmode_read f \<noteq> fmode_write f"
    show "kpub_open e t f =
        (Inr (),
         t\<lparr>nreaders := (if fmode_read f then nreaders t + 1 else nreaders t),
           nwriters := (if fmode_write f then nwriters t + 1 else nwriters t),
           rp := wp t, len := 0,
           buf := (case buf t of
                     None \<Rightarrow> Some (replicate (unat (msg_size t * msg_count t)) 0)
                   | Some b \<Rightarrow> Some b)\<rparr>,
         f\<lparr>f_pos := ucast (wp t)\<rparr>)"
    proof (cases "buf t")
      case None
      with a show ?thesis
        by (cases "fmode_read f") (simp_all add: kpub_open_def kzalloc_def Let_def)
    next
      case (Some b)
      with a show ?thesis
        by (cases "fmode_read f") (simp_all add: kpub_open_def Let_def)
    qed
  qed
qed

text \<open>
  On \<open>pending_topic\<close> the first reader has 12 unread bytes (\<open>len = 12\<close>,
  \<open>rp = 0\<close>, \<open>wp = 12\<close>, \<open>rcount = 1\<close>). A second writer opens: the open
  succeeds, \<open>len\<close> becomes 0 and \<open>rp\<close> becomes 12. The same happens when a
  second reader opens instead.
\<close>

theorem open_resets_tail_and_len_witness:
  "len pending_topic = 12 \<and> rp pending_topic = 0 \<and> wp pending_topic = 12 \<and>
   rcount pending_topic = 1 \<and>
   kpub_open quiet pending_topic writer_file
     = (Inr (), pending_topic\<lparr>nwriters := 2, rp := 12, len := 0\<rparr>, writer_file\<lparr>f_pos := 12\<rparr>) \<and>
   len (pending_topic\<lparr>nwriters := 2, rp := 12, len := 0\<rparr>) = 0 \<and>
   rp (pending_topic\<lparr>nwriters := 2, rp := 12, len := 0\<rparr>) = wp pending_topic \<and>
   kpub_open quiet pending_topic reader_file
     = (Inr (), pending_topic\<lparr>nreaders := 2, rp := 12, len := 0\<rparr>, reader_file\<lparr>f_pos := 12\<rparr>) \<and>
   len (pending_topic\<lparr>nreaders := 2, rp := 12, len := 0\<rparr>) = 0 \<and>
   rp (pending_topic\<lparr>nreaders := 2, rp := 12, len := 0\<rparr>) = wp pending_topic"
proof -
  have p: "len pending_topic = 12 \<and> rp pending_topic = 0 \<and> wp pending_topic = 12 \<and>
      rcount pending_topic = 1"
    by (simp add: pending_topic_eq)
  have q: "\<not> sig_lock quiet \<and> msg_size pending_topic \<noteq> 0 \<and> msg_count pending_topic \<noteq> 0 \<and>
      buf pending_topic \<noteq> None"
    by (simp add: pending_topic_eq quiet_def)
  have m: "fmode_read writer_file \<noteq> fmode_write writer_file \<and>
      fmode_read reader_file \<noteq> fmode_write reader_file"
    by (simp add: writer_file_def reader_file_def)
  have w: "kpub_open quiet pending_topic writer_file
     = (Inr (), pending_topic\<lparr>nwriters := 2, rp := 12, len := 0\<rparr>, writer_file\<lparr>f_pos := 12\<rparr>)"
    using p q m
      open_resets_tail_and_len [of quiet pending_topic writer_file
        "pending_topic\<lparr>nwriters := 2, rp := 12, len := 0\<rparr>" "writer_file\<lparr>f_pos := 12\<rparr>"]
    by (simp add: pending_topic_eq writer_file_def)
  have r: "kpub_open quiet pending_topic reader_file
     = (Inr (), pending_topic\<lparr>nreaders := 2, rp := 12, len := 0\<rparr>, reader_file\<lparr>f_pos := 12\<rparr>)"
    using p q m
      open_resets_tail_and_len [of quiet pending_topic reader_file
        "pending_topic\<lparr>nreaders := 2, rp := 12, len := 0\<rparr>" "reader_file\<lparr>f_pos := 12\<rparr>"]
    by (simp add: pending_topic_eq reader_file_def)
  from p w r show ?thesis by (simp add: pending_topic_eq)
qed

section \<open>The countdown below zero\<close>

text \<open>
  Claim C10. A read that succeeds while \<open>rcount\<close> is zero still decrements it,
  to \<open>2^32 - 1\<close>. From \<open>rcount = 0\<close>, after \<open>k\<close> successful reads with no write
  between them \<open>rcount\<close> is \<open>- k\<close> modulo \<open>2^32\<close>: it is not zero and neither \<open>rp\<close>
  nor \<open>len\<close> has moved while \<open>0 < k < 2^32\<close>, and it is zero again at
  \<open>k = 2^32\<close>, that is \<open>2^32 - 1\<close> reads after the one that wrapped. A
  successful write sets \<open>rcount\<close> to \<open>nreaders\<close>.
\<close>

theorem rcount_wraps_below_zero:
  assumes "rcount t = 0" and "reads t rs = Some t'"
  shows "rcount t' = - of_nat (length rs) \<and>
         (length rs = 1 \<longrightarrow> rcount t' = 0xFFFFFFFF) \<and>
         (0 < length rs \<and> length rs < 2 ^ 32 \<longrightarrow>
            rcount t' \<noteq> 0 \<and> rp t' = rp t \<and> len t' = len t) \<and>
         (length rs = 2 ^ 32 \<longrightarrow> rcount t' = 0) \<and>
         (kpub_write e t' f ubuf n = (Inr k, t'', f') \<longrightarrow> rcount t'' = nreaders t')"
proof -
  have rc: "rcount t' = - of_nat (length rs)"
    using reads_rcount [OF assms(2)] assms(1) by simp
  have one: "length rs = 1 \<longrightarrow> rcount t' = 0xFFFFFFFF"
    using rc by simp
  have nz: "rcount t' \<noteq> 0" if "0 < length rs" "length rs < 2 ^ 32"
  proof
    assume "rcount t' = 0"
    then have "(of_nat (length rs) :: u32) = 0" using rc by simp
    then have "(2::nat) ^ 32 dvd length rs" by (simp add: of_nat_u32_zero)
    then have "2 ^ 32 \<le> length rs" using that(1) by (rule dvd_imp_le)
    with that(2) show False by simp
  qed
  have keep: "rp t' = rp t \<and> len t' = len t" if "length rs < 2 ^ 32"
  proof (rule reads_no_reclaim [OF assms(2)], intro allI impI)
    fix j assume j: "j < length rs"
    show "rcount t - of_nat j \<noteq> 1"
    proof
      assume "rcount t - of_nat j = 1"
      then have "- (of_nat j :: u32) = 1" using assms(1) by simp
      then have "(of_nat j :: u32) = - 1" by (metis add.inverse_inverse)
      then have "(of_nat (Suc j) :: u32) = 0" by simp
      then have "(2::nat) ^ 32 dvd Suc j" by (simp only: of_nat_u32_zero)
      then have "2 ^ 32 \<le> Suc j" by (rule dvd_imp_le) simp
      with j that show False by simp
    qed
  qed
  have full: "length rs = 2 ^ 32 \<longrightarrow> rcount t' = 0"
    using rc by (simp add: of_nat_u32_zero)
  have wr: "kpub_write e t' f ubuf n = (Inr k, t'', f') \<longrightarrow> rcount t'' = nreaders t'"
    using kpub_write_rcount by blast
  from rc one nz keep full wr show ?thesis by blast
qed

text \<open>
  On \<open>drained_topic\<close> (\<open>rcount = 0\<close>, \<open>wp = 8\<close>, the reader at 4, \<open>len = 4\<close>)
  the reader reads 2 bytes twice: \<open>rcount\<close> is \<open>2^32 - 2\<close> and \<open>len\<close> is still 4.
  The next write of 4 bytes sets \<open>rcount\<close> to 1.
\<close>

theorem rcount_wraps_below_zero_witness:
  "rcount drained_topic = 0 \<and>
   reads drained_topic [(quiet, reader_file\<lparr>f_pos := 4\<rparr>, 2), (quiet, reader_file\<lparr>f_pos := 6\<rparr>, 2)]
     = Some (drained_topic\<lparr>rcount := 0xFFFFFFFE\<rparr>) \<and>
   rcount (drained_topic\<lparr>rcount := 0xFFFFFFFE\<rparr>) \<noteq> 0 \<and>
   len (drained_topic\<lparr>rcount := 0xFFFFFFFE\<rparr>) = len drained_topic \<and>
   rp (drained_topic\<lparr>rcount := 0xFFFFFFFE\<rparr>) = rp drained_topic \<and>
   kpub_write quiet (drained_topic\<lparr>rcount := 0xFFFFFFFE\<rparr>) writer_file [9, 10, 11, 12] 4
     = (Inr 4, drained_topic\<lparr>wp := 12, len := 8, rcount := 1,
          buf := Some [1, 2, 3, 4, 5, 6, 7, 8, 9, 10, 11, 12, 0, 0, 0, 0]\<rparr>, writer_file) \<and>
   rcount (drained_topic\<lparr>wp := 12, len := 8, rcount := 1,
          buf := Some [1, 2, 3, 4, 5, 6, 7, 8, 9, 10, 11, 12, 0, 0, 0, 0]\<rparr>) = nreaders drained_topic"
proof -
  have z: "rcount drained_topic = 0"
    by (simp add: drained_topic_eq)
  have r: "reads drained_topic
       [(quiet, reader_file\<lparr>f_pos := 4\<rparr>, 2), (quiet, reader_file\<lparr>f_pos := 6\<rparr>, 2)]
     = Some (drained_topic\<lparr>rcount := 0xFFFFFFFE\<rparr>)"
    by (simp add: drained_topic_eq reader_file_def kpub_read_def copy_to_user_def
          topic_size_def quiet_def Let_def)
  have w: "kpub_write quiet (drained_topic\<lparr>rcount := 0xFFFFFFFE\<rparr>) writer_file [9, 10, 11, 12] 4
     = (Inr 4, drained_topic\<lparr>wp := 12, len := 8, rcount := 1,
          buf := Some [1, 2, 3, 4, 5, 6, 7, 8, 9, 10, 11, 12, 0, 0, 0, 0]\<rparr>, writer_file)"
    by (simp add: drained_topic_eq writer_file_def kpub_write_def copy_from_user_def
          topic_size_def quiet_def Let_def)
  from z r w rcount_wraps_below_zero [OF z r, of quiet writer_file "[9, 10, 11, 12]" 4]
  show ?thesis by (simp add: drained_topic_eq)
qed

end
